theory Spec2Isabelle
  imports Complex_Main "HOL-Library.Sublist" "HOL-Library.Multiset"
begin

section \<open>Strings as the access layer uses them\<close>

text \<open>
  A JavaScript string is a sequence of code units. The model uses \<^typ>\<open>string\<close> and reads
  each \<^typ>\<open>char\<close> as a code unit in the range 0..255 (Basic Latin and Latin-1). Every
  literal the color sanitizer compares against is ASCII, and no code unit outside ASCII
  lower-cases to one of the letters of those literals.
\<close>

definition isWhiteSpace :: "char \<Rightarrow> bool" where
  \<comment> \<open>what \<open>String.prototype.trim\<close> strips: TAB, LF, VT, FF, CR, SP, NBSP\<close>
  "isWhiteSpace c = (of_char c \<in> {9, 10, 11, 12, 13, 32, 160 :: nat})"

definition toLowerChar :: "char \<Rightarrow> char" where
  \<comment> \<open>A..Z and the Latin-1 capitals (all of C0..DE but the multiplication sign D7)\<close>
  "toLowerChar c =
     (let n = (of_char c :: nat)
      in if (65 \<le> n \<and> n \<le> 90) \<or> (192 \<le> n \<and> n \<le> 222 \<and> n \<noteq> 215)
         then char_of (n + 32) else c)"

definition toLowerCase :: "string \<Rightarrow> string" where
  "toLowerCase s = map toLowerChar s"

definition trim :: "string \<Rightarrow> string" where
  "trim s = rev (dropWhile isWhiteSpace (rev (dropWhile isWhiteSpace s)))"

text \<open>\<open>s.includes(t)\<close>: \<open>t\<close> occurs in \<open>s\<close> as a contiguous run.\<close>

fun str_includes :: "string \<Rightarrow> string \<Rightarrow> bool" where
  "str_includes [] t = (t = [])"
| "str_includes (x # xs) t = (prefix t (x # xs) \<or> str_includes xs t)"


section \<open>The color sanitizer\<close>

definition BRAND_GREEN :: string where
  "BRAND_GREEN = ''#a4e636''"

definition LEGACY_RED_HEX :: string where
  "LEGACY_RED_HEX = ''#e11d47''"

text \<open>
  \<open>sanitizeColor(color: string | undefined)\<close>. \<open>None\<close> is \<open>undefined\<close> (or \<open>null\<close>, which a
  missing column reads as); \<open>!color\<close> holds for these and for the empty string.
\<close>

definition sanitizeColor :: "string option \<Rightarrow> string" where
  "sanitizeColor color =
     (case color of
        None \<Rightarrow> BRAND_GREEN
      | Some s \<Rightarrow>
          if s = [] then BRAND_GREEN
          else
            let c = toLowerCase (trim s)
            in if c = toLowerCase LEGACY_RED_HEX \<or>
                  c = ''#e11d47'' \<or>
                  c = ''rgb(225, 29, 71)'' \<or>
                  str_includes c ''225, 29, 71'' \<or>
                  c = ''#ff0000'' \<or>
                  c = ''red''
               then BRAND_GREEN
               else s)"

text \<open>
  The retired legacy red in the textual representations the specification recognises:
  the hex form, the \<open>rgb\<close> form, any text containing \<open>225, 29, 71\<close>, pure red in hex,
  and the color name.
\<close>

definition legacy_red :: "string \<Rightarrow> bool" where
  "legacy_red c \<longleftrightarrow>
     c = ''#e11d47'' \<or> c = ''rgb(225, 29, 71)'' \<or> sublist ''225, 29, 71'' c \<or>
     c = ''#ff0000'' \<or> c = ''red''"


section \<open>Domain records\<close>

datatype AchievementCategory = Kms | Leads | Sweeps | RPs | Rides

text \<open>
  Numbers that the records hold (thresholds, stat counters, fees) are integers: the
  editor of the catalogue stores \<open>parseInt(value) || 0\<close> as a threshold, and the counters
  count rides and kilometres. The field \<open>id\<close> of the source is written
  \<open>ach_id\<close>, \<open>user_id\<close>, \<open>ride_id\<close>, since \<open>id\<close> is the identity function of HOL, and the
  field \<open>notes\<close> of a ride \<open>ride_notes\<close>.
\<close>

record Achievement =
  ach_id :: "string option"
  threshold :: int
  label :: string
  category :: AchievementCategory
  icon :: "string option"

text \<open>Of \<open>User\<close>, the identity and the five counters; the profile fields are not read
  by any operation modelled here.\<close>

record User =
  user_id :: string
  name :: string
  totalRides :: int
  totalKms :: int
  leads :: int
  sweeps :: int
  rps :: int

text \<open>
  \<open>ClubSettings\<close>. A row of \<open>club_settings\<close> reaches the code untyped (\<open>data\<close> is \<open>any\<close>,
  the result is cast with \<open>as ClubSettings\<close>), so a field can be absent at run time:
  every field is an option, \<open>None\<close> for \<open>undefined\<close> or \<open>null\<close>.
\<close>

record ClubSettings =
  upiId :: "string option"
  gpayQrUrl :: "string option"
  annualFee :: "int option"
  lifetimeFee :: "int option"
  brandName :: "string option"
  brandSubName :: "string option"
  logoUrl :: "string option"
  primaryColor :: "string option"
  dashboardBg :: "string option"
  headerBg :: "string option"
  headerText :: "string option"
  cardBg :: "string option"
  cardBorder :: "string option"
  globalFont :: "string option"
  headingFont :: "string option"
  navFont :: "string option"
  statFont :: "string option"
  buttonFont :: "string option"
  inputFont :: "string option"
  achievementFont :: "string option"
  cardHeaderFont :: "string option"
  sectionHeaderFont :: "string option"
  buttonBg :: "string option"
  buttonText :: "string option"
  statColor :: "string option"
  achievements :: "Achievement list option"


section \<open>The access layer: club settings\<close>

text \<open>What a query of the hosted store resolves to: \<open>{ data, error }\<close>.\<close>

datatype PostgrestError = PostgrestError (message: string)

record 'a response =
  data :: "'a option"
  error :: "PostgrestError option"

text \<open>\<open>x || d\<close> on a string: the default replaces \<open>undefined\<close>, \<open>null\<close> and \<open>''\<close>.\<close>

definition str_or :: "string option \<Rightarrow> string option \<Rightarrow> string option" where
  "str_or x d = (case x of None \<Rightarrow> d | Some s \<Rightarrow> if s = [] then d else Some s)"

text \<open>\<open>x || d\<close> on an array: every array is truthy, the empty one too.\<close>

definition arr_or :: "'a list option \<Rightarrow> 'a list option \<Rightarrow> 'a list option" where
  "arr_or x d = (case x of None \<Rightarrow> d | Some a \<Rightarrow> Some a)"

text \<open>The object literal \<open>{ threshold, label, category }\<close>: no \<open>id\<close>, no \<open>icon\<close>.\<close>

definition mkAchievement :: "int \<Rightarrow> string \<Rightarrow> AchievementCategory \<Rightarrow> Achievement" where
  "mkAchievement t l c =
     \<lparr>ach_id = None, threshold = t, label = l, category = c, icon = None\<rparr>"

definition defaults :: ClubSettings where
  "defaults =
     \<lparr>upiId = Some '''',
      gpayQrUrl = Some '''',
      annualFee = Some 0,
      lifetimeFee = Some 0,
      brandName = Some ''BIKERS'',
      brandSubName = Some ''CREED'',
      logoUrl = Some '''',
      primaryColor = Some BRAND_GREEN,
      dashboardBg = Some ''#000000'',
      headerBg = Some ''#000000'',
      headerText = Some ''#ffffff'',
      cardBg = Some ''#0a0a0a'',
      cardBorder = Some ''#262626'',
      globalFont = Some ''Montserrat'',
      headingFont = Some ''Bebas Neue'',
      navFont = Some ''Bebas Neue'',
      statFont = Some ''Bebas Neue'',
      buttonFont = Some ''Bebas Neue'',
      inputFont = Some ''Montserrat'',
      achievementFont = Some ''Bebas Neue'',
      cardHeaderFont = Some ''Bebas Neue'',
      sectionHeaderFont = Some ''Bebas Neue'',
      buttonBg = Some BRAND_GREEN,
      buttonText = Some ''#000000'',
      statColor = Some BRAND_GREEN,
      achievements = Some
        [mkAchievement 1000 ''Iron Butt'' Kms,
         mkAchievement 5 ''First Lead'' Leads,
         mkAchievement 10 ''Road Master'' Leads,
         mkAchievement 10 ''Guardian'' Sweeps,
         mkAchievement 5 ''Tactician'' RPs,
         mkAchievement 25 ''Veteran'' Rides]\<rparr>"

text \<open>
  \<open>getClubSettings\<close>, as a function of what the query resolved to. An \<open>async\<close> function
  either resolves (\<open>Inr\<close>) or rejects (\<open>Inl\<close>); this one has no \<open>throw\<close>. The object
  spread \<open>{...data, k: v, ...}\<close> is a record update of \<open>data\<close>.
\<close>

definition getClubSettings :: "ClubSettings response \<Rightarrow> PostgrestError + ClubSettings" where
  "getClubSettings r =
     (if error r \<noteq> None then Inr defaults
      else case data r of
        None \<Rightarrow> Inr defaults
      | Some d \<Rightarrow>
          Inr (d\<lparr>primaryColor := Some (sanitizeColor (primaryColor d)),
                 buttonBg := Some (sanitizeColor (buttonBg d)),
                 statColor := Some (sanitizeColor (statColor d)),
                 dashboardBg := str_or (dashboardBg d) (Some ''#000000''),
                 cardBg := str_or (cardBg d) (Some ''#0a0a0a''),
                 headerBg := str_or (headerBg d) (Some ''#000000''),
                 achievements := arr_or (achievements d) (achievements defaults),
                 globalFont := str_or (globalFont d) (globalFont defaults),
                 headingFont := str_or (headingFont d) (headingFont defaults),
                 navFont := str_or (navFont d) (navFont defaults),
                 statFont := str_or (statFont d) (statFont defaults),
                 buttonFont := str_or (buttonFont d) (buttonFont defaults),
                 inputFont := str_or (inputFont d) (inputFont defaults),
                 achievementFont := str_or (achievementFont d) (achievementFont defaults),
                 cardHeaderFont :=
                   str_or (cardHeaderFont d) (cardHeaderFont defaults),
                 sectionHeaderFont :=
                   str_or (sectionHeaderFont d) (sectionHeaderFont defaults)\<rparr>))"


section \<open>The achievement progress view\<close>

text \<open>
  The quotient of two integers as JavaScript computes it: a finite value, an infinity
  when a non-zero number is divided by zero, and \<open>NaN\<close> for \<open>0 / 0\<close>. Finite values are
  exact rationals: the rounding of binary floating point is not modelled. A divisor that
  is zero is the difference of two equal integers here, hence \<open>+0\<close>, and the sign of the
  infinity is the sign of the dividend.
\<close>

datatype number = Fin rat | PosInf | NegInf | NaN

definition js_div :: "int \<Rightarrow> int \<Rightarrow> number" where
  "js_div a b =
     (if b = 0 then (if a = 0 then NaN else if 0 < a then PosInf else NegInf)
      else Fin (of_int a / of_int b))"

fun js_times :: "number \<Rightarrow> rat \<Rightarrow> number" where
  \<comment> \<open>multiplication by a positive finite constant\<close>
  "js_times (Fin q) k = Fin (q * k)"
| "js_times PosInf k = PosInf"
| "js_times NegInf k = NegInf"
| "js_times NaN k = NaN"

fun Math_max :: "number \<Rightarrow> number \<Rightarrow> number" where
  "Math_max NaN y = NaN"
| "Math_max x NaN = NaN"
| "Math_max PosInf y = PosInf"
| "Math_max x PosInf = PosInf"
| "Math_max NegInf y = y"
| "Math_max x NegInf = x"
| "Math_max (Fin p) (Fin q) = Fin (max p q)"

fun Math_min :: "number \<Rightarrow> number \<Rightarrow> number" where
  "Math_min NaN y = NaN"
| "Math_min x NaN = NaN"
| "Math_min NegInf y = NegInf"
| "Math_min x NegInf = NegInf"
| "Math_min PosInf y = y"
| "Math_min x PosInf = x"
| "Math_min (Fin p) (Fin q) = Fin (min p q)"

text \<open>\<open>x || 0\<close> on a number that may be \<open>undefined\<close>: zero is falsy, and gives zero.\<close>

definition num_or :: "int option \<Rightarrow> int \<Rightarrow> int" where
  "num_or x d = (case x of None \<Rightarrow> d | Some n \<Rightarrow> if n = 0 then d else n)"

text \<open>\<open>xs.slice(-1)[0]\<close>: the last element, \<open>undefined\<close> on the empty array.\<close>

definition last_opt :: "'a list \<Rightarrow> 'a option" where
  "last_opt xs = (if xs = [] then None else Some (last xs))"

definition categories :: "AchievementCategory list" where
  "categories = [Kms, Leads, Sweeps, RPs, Rides]"

fun getStatValue :: "User \<Rightarrow> AchievementCategory \<Rightarrow> int" where
  "getStatValue user Kms = totalKms user"
| "getStatValue user Leads = leads user"
| "getStatValue user Sweeps = sweeps user"
| "getStatValue user RPs = rps user"
| "getStatValue user Rides = totalRides user"

text \<open>
  One card of the grid: the constants of the \<open>map\<close> callback, and the two rendered items
  that depend on \<open>isMaxed\<close>: the heading and the width of the bar in percent.
\<close>

record ProgressCard =
  cardCategory :: AchievementCategory
  catValue :: int
  nextAchievement :: Achievement
  prevThreshold :: int
  progress :: number
  isMaxed :: bool
  heading :: string
  barWidth :: number

text \<open>
  \<open>filter\<close> then \<open>sort\<close> with the comparator \<open>a.threshold - b.threshold\<close>: a stable sort
  by threshold, which \<^const>\<open>sort_key\<close> is.
\<close>

definition catAchievements :: "Achievement list \<Rightarrow> AchievementCategory \<Rightarrow> Achievement list" where
  "catAchievements as c = sort_key threshold (filter (\<lambda>a. category a = c) as)"

text \<open>The callback of \<open>categories.map\<close>; \<open>None\<close> is its \<open>return null\<close>, which renders nothing.\<close>

definition renderCategory :: "User \<Rightarrow> Achievement list \<Rightarrow> AchievementCategory \<Rightarrow> ProgressCard option" where
  "renderCategory user as c =
     (let v = getStatValue user c;
          cat = catAchievements as c
      in if length cat = 0 then None
         else
           let nxt = (case find (\<lambda>a. threshold a > v) cat of
                        Some a \<Rightarrow> a
                      | None \<Rightarrow> cat ! (length cat - 1));
               prev = num_or (map_option threshold
                                (last_opt (filter (\<lambda>a. threshold a \<le> v) cat))) 0;
               prog = Math_min (Fin 100)
                        (Math_max (Fin 0) (js_times (js_div (v - prev) (threshold nxt - prev)) 100));
               maxed = (v \<ge> threshold (cat ! (length cat - 1)))
           in Some \<lparr>cardCategory = c,
                    catValue = v,
                    nextAchievement = nxt,
                    prevThreshold = prev,
                    progress = prog,
                    isMaxed = maxed,
                    heading = (if maxed then ''MAXED OUT'' else label nxt),
                    barWidth = (if maxed then Fin 100 else prog)\<rparr>)"

text \<open>
  The component: \<open>None\<close> when it returns \<open>null\<close> (no settings, or settings without a
  catalogue), else the grid, one slot per category in the fixed order.
\<close>

definition AchievementProgress :: "User \<Rightarrow> ClubSettings option \<Rightarrow> ProgressCard option list option" where
  "AchievementProgress user settings =
     (case settings of
        None \<Rightarrow> None
      | Some s \<Rightarrow>
          (case achievements s of
             None \<Rightarrow> None
           | Some as \<Rightarrow> Some (map (renderCategory user as) categories)))"

text \<open>The cards that are emitted: the slots that are not \<open>null\<close>.\<close>

definition emitted :: "User \<Rightarrow> ClubSettings option \<Rightarrow> ProgressCard list" where
  "emitted user settings =
     (case AchievementProgress user settings of
        None \<Rightarrow> []
      | Some slots \<Rightarrow> List.map_filter (\<lambda>x. x) slots)"

text \<open>A displayed fraction is in range when it is a finite number between 0 and 100.\<close>

fun in_range :: "number \<Rightarrow> bool" where
  "in_range (Fin q) = (0 \<le> q \<and> q \<le> 100)"
| "in_range PosInf = False"
| "in_range NegInf = False"
| "in_range NaN = False"


section \<open>The access layer: rides\<close>

datatype RideStatus = upcoming | completed

text \<open>
  \<open>Omit<Ride, 'id' | 'status'>\<close>, the insert payload \<open>{ ...rideData, status }\<close>, and the
  stored \<open>Ride\<close>, whose \<open>id\<close> the store assigns: three records, each extending the one
  before.
\<close>

record RideData =
  title :: string
  summary :: string
  ride_notes :: "string option"
  date :: string
  startTime :: string
  endTime :: string
  durationDays :: int
  terrainTypes :: "string list"
  customTerrain :: "string option"
  marshalId :: string
  mapLink :: string
  feedbackLink :: "string option"
  driveLink :: "string option"

record RideInsert = RideData +
  status :: RideStatus

record Ride = RideInsert +
  ride_id :: string

text \<open>
  The table \<open>rides\<close> of the hosted store, which is not code of this repository. An insert
  followed by \<open>select().maybeSingle()\<close> either fails and leaves the table as it was, or
  appends the row it was given under a fresh id and returns it. The outcome (the error,
  if any, and the id) is a parameter.
\<close>

definition insert_rides ::
  "PostgrestError option \<Rightarrow> string \<Rightarrow> RideInsert \<Rightarrow> Ride list \<Rightarrow> Ride response \<times> Ride list" where
  "insert_rides failure new_id row tbl =
     (case failure of
        Some e \<Rightarrow> (\<lparr>data = None, error = Some e\<rparr>, tbl)
      | None \<Rightarrow>
          (let r = RideInsert.extend row (Ride.fields new_id)
           in (\<lparr>data = Some r, error = None\<rparr>, tbl @ [r])))"

text \<open>\<open>createRide\<close>: the payload is the spread of \<open>rideData\<close> with \<open>status: 'upcoming'\<close>;
  an error is thrown, else \<open>data\<close> is returned.\<close>

definition createRide ::
  "PostgrestError option \<Rightarrow> string \<Rightarrow> RideData \<Rightarrow> Ride list \<Rightarrow> (PostgrestError + Ride option) \<times> Ride list" where
  "createRide failure new_id rideData tbl =
     (let (r, tbl') = insert_rides failure new_id
                        (RideData.extend rideData (RideInsert.fields upcoming)) tbl
      in case error r of
           Some e \<Rightarrow> (Inl e, tbl')
         | None \<Rightarrow> (Inr (data r), tbl'))"

text \<open>The list the dashboard shows: \<open>rides.filter(r => r.status === 'upcoming')\<close>.\<close>

definition upcomingRides :: "Ride list \<Rightarrow> Ride list" where
  "upcomingRides rides = filter (\<lambda>r. status r = upcoming) rides"


section \<open>Example data\<close>

text \<open>A rider, three small catalogues, the card of the rider in the category \<open>Kms\<close>
  under the default catalogue, and the draft of a ride.\<close>

definition rider :: User where
  "rider = \<lparr>user_id = ''9000000001'', name = ''Rider'', totalRides = 12, totalKms = 400,
             leads = 10, sweeps = 0, rps = 5\<rparr>"

definition iron_butt :: "Achievement list" where
  "iron_butt = [mkAchievement 1000 ''Iron Butt'' Kms]"

definition lead_honors :: "Achievement list" where
  "lead_honors = [mkAchievement 5 ''First Lead'' Leads, mkAchievement 10 ''Road Master'' Leads]"

definition twin_honors :: "Achievement list" where
  "twin_honors = [mkAchievement 5 ''A'' RPs, mkAchievement 5 ''B'' RPs]"

definition kms_card :: ProgressCard where
  "kms_card = \<lparr>cardCategory = Kms, catValue = 400,
           nextAchievement = mkAchievement 1000 ''Iron Butt'' Kms,
           prevThreshold = 0, progress = Fin 40, isMaxed = False,
           heading = ''Iron Butt'', barWidth = Fin 40\<rparr>"

definition dawn_ride :: RideData where
  "dawn_ride = \<lparr>title = ''Dawn Patrol'', summary = ''Coastal loop'', ride_notes = Some '''',
       date = ''2025-01-12'', startTime = ''06:00'', endTime = ''18:00'', durationDays = 1,
       terrainTypes = [], customTerrain = None, marshalId = ''9000000001'', mapLink = '''',
       feedbackLink = None, driveLink = Some ''''\<rparr>"


section \<open>Facts about strings\<close>

lemma str_includes_sublist: "str_includes s t \<longleftrightarrow> sublist t s"
  by (induction s) (simp_all add: sublist_Cons_right)

lemma isWhiteSpace_toLowerChar: "isWhiteSpace (toLowerChar c) = isWhiteSpace c"
  by (auto simp: isWhiteSpace_def toLowerChar_def Let_def)

lemma toLowerChar_idem: "toLowerChar (toLowerChar c) = toLowerChar c"
  by (auto simp: toLowerChar_def Let_def)

lemma trim_toLowerCase: "trim (toLowerCase s) = toLowerCase (trim s)"
  by (simp add: trim_def toLowerCase_def dropWhile_map rev_map comp_def isWhiteSpace_toLowerChar)

lemma toLowerCase_idem: "toLowerCase (toLowerCase s) = toLowerCase s"
  by (simp add: toLowerCase_def toLowerChar_idem)

text \<open>Trimming keeps every occurrence of a text that neither starts nor ends with
  white space.\<close>

lemma sublist_trim:
  assumes "sublist t s" "t \<noteq> []" "\<not> isWhiteSpace (hd t)" "\<not> isWhiteSpace (last t)"
  shows "sublist t (trim s)"
proof -
  from assms(1) obtain p q where s: "s = p @ t @ q" by (auto simp: sublist_def)
  from assms(2) obtain x r where t: "t = x # r" by (cases t) auto
  with assms(3) have x: "\<not> isWhiteSpace x" by simp
  have d1: "dropWhile isWhiteSpace s = dropWhile isWhiteSpace p @ t @ q"
    using x by (simp add: s t dropWhile_append3)
  from assms(2) obtain y u where rt: "rev t = y # u" by (cases "rev t") auto
  have "y = last t" using rt assms(2) by (metis hd_rev list.sel(1))
  with assms(4) have y: "\<not> isWhiteSpace y" by simp
  have "rev (dropWhile isWhiteSpace s) = rev q @ y # (u @ rev (dropWhile isWhiteSpace p))"
    by (simp add: d1 rt)
  then have "dropWhile isWhiteSpace (rev (dropWhile isWhiteSpace s))
      = dropWhile isWhiteSpace (rev q) @ y # (u @ rev (dropWhile isWhiteSpace p))"
    using y by (simp add: dropWhile_append3)
  then have "trim s = dropWhile isWhiteSpace p @ rev (y # u) @ rev (dropWhile isWhiteSpace (rev q))"
    by (simp add: trim_def)
  also have "rev (y # u) = t" using rt by (metis rev_rev_ident)
  finally show ?thesis by (auto simp: sublist_def)
qed

lemma sublist_toLowerCase:
  assumes "sublist t s" "toLowerCase t = t"
  shows "sublist t (toLowerCase s)"
proof -
  from assms(1) obtain p q where "s = p @ t @ q" by (auto simp: sublist_def)
  then have "toLowerCase s = toLowerCase p @ t @ toLowerCase q"
    using assms(2) by (simp add: toLowerCase_def)
  then show ?thesis by (auto simp: sublist_def)
qed


section \<open>Facts about the color sanitizer\<close>

lemma toLowerCase_LEGACY: "toLowerCase LEGACY_RED_HEX = ''#e11d47''"
  by code_simp

lemma sanitizeColor_Some:
  "s \<noteq> [] \<Longrightarrow>
     sanitizeColor (Some s) = (if legacy_red (toLowerCase (trim s)) then BRAND_GREEN else s)"
  by (auto simp: sanitizeColor_def Let_def legacy_red_def str_includes_sublist toLowerCase_LEGACY)

lemma green_normal_not_legacy: "\<not> legacy_red (toLowerCase (trim BRAND_GREEN))"
  by code_simp

lemma green_nonempty: "BRAND_GREEN \<noteq> []"
  by (simp add: BRAND_GREEN_def)

lemma sanitizeColor_cases:
  "sanitizeColor x = BRAND_GREEN \<or>
   (\<exists>s. x = Some s \<and> s \<noteq> [] \<and> \<not> legacy_red (toLowerCase (trim s)) \<and> sanitizeColor x = s)"
proof (cases x)
  case None
  then show ?thesis by (simp add: sanitizeColor_def)
next
  case (Some s)
  show ?thesis
  proof (cases "s = []")
    case True
    with Some show ?thesis by (simp add: sanitizeColor_def)
  next
    case False
    with Some show ?thesis by (simp add: sanitizeColor_Some)
  qed
qed

lemma sanitizeColor_nonempty: "sanitizeColor x \<noteq> []"
  using sanitizeColor_cases[of x] green_nonempty by auto

lemma sanitizeColor_normal_clean: "\<not> legacy_red (toLowerCase (trim (sanitizeColor x)))"
  using sanitizeColor_cases[of x] green_normal_not_legacy by auto

lemma digits_lower: "toLowerCase ''225, 29, 71'' = ''225, 29, 71''"
  by code_simp

lemma digits_ends:
  "\<not> isWhiteSpace (hd ''225, 29, 71'') \<and> \<not> isWhiteSpace (last ''225, 29, 71'')"
  by code_simp

lemma legacy_literals_normal:
  "legacy_red (toLowerCase (trim ''#e11d47''))"
  "legacy_red (toLowerCase (trim ''rgb(225, 29, 71)''))"
  "legacy_red (toLowerCase (trim ''#ff0000''))"
  "legacy_red (toLowerCase (trim ''red''))"
  by code_simp+

text \<open>A text that is a legacy red as it stands is one after normalisation too.\<close>

lemma legacy_red_normal: "legacy_red s \<Longrightarrow> legacy_red (toLowerCase (trim s))"
  unfolding legacy_red_def[of s]
proof (elim disjE)
  assume "sublist ''225, 29, 71'' s"
  then have "sublist ''225, 29, 71'' (trim s)"
    using digits_ends by (intro sublist_trim) auto
  then have "sublist ''225, 29, 71'' (toLowerCase (trim s))"
    by (rule sublist_toLowerCase) (rule digits_lower)
  then show ?thesis by (simp add: legacy_red_def)
qed (simp_all add: legacy_literals_normal)

lemma legacy_red_lower_normal:
  assumes "legacy_red (toLowerCase s)"
  shows "legacy_red (toLowerCase (trim s))"
proof -
  from legacy_red_normal[OF assms]
  have "legacy_red (toLowerCase (trim (toLowerCase s)))" .
  then show ?thesis by (simp add: trim_toLowerCase toLowerCase_idem)
qed

lemma sanitizeColor_clean: "\<not> legacy_red (sanitizeColor x)"
  using sanitizeColor_normal_clean legacy_red_normal by blast

lemma not_legacy_Nil: "\<not> legacy_red []"
  by (simp add: legacy_red_def)


section \<open>The color sanitizer: claims\<close>

text \<open>
  C5, as stated: an input is replaced by the default brand color exactly when it is
  undefined, empty, or a legacy red up to the case of its letters. The code also trims
  the input before it compares, so \<open>" red "\<close>, which is no legacy red up to case, is
  replaced all the same and not returned unchanged.
\<close>

theorem sanitizeColor_untrimmed_counterexample:
  "'' red '' \<noteq> [] \<and> \<not> legacy_red (toLowerCase '' red '') \<and>
   sanitizeColor (Some '' red '') \<noteq> '' red ''"
  by code_simp

text \<open>
  C5, amended: \<open>sanitizeColor\<close> returns the default brand color for undefined or empty
  input and for every input that is a legacy red after trimming surrounding white space
  and lower-casing (hex \<open>#e11d47\<close>, \<open>rgb(225, 29, 71)\<close>, any text containing
  \<open>225, 29, 71\<close>, \<open>#ff0000\<close>, \<open>red\<close>), which covers every input that is one up to case
  alone; every other input is returned unchanged. In particular \<open>#E11D47\<close>, \<open>#e11d47\<close>
  and \<open>red\<close> give the default brand color \<open>#a4e636\<close>, and \<open>#123456\<close> gives \<open>#123456\<close>.
\<close>

theorem sanitizeColor_contract:
  "sanitizeColor None = BRAND_GREEN \<and>
   sanitizeColor (Some []) = BRAND_GREEN \<and>
   (s \<noteq> [] \<and> legacy_red (toLowerCase (trim s)) \<longrightarrow> sanitizeColor (Some s) = BRAND_GREEN) \<and>
   (legacy_red (toLowerCase s) \<longrightarrow> sanitizeColor (Some s) = BRAND_GREEN) \<and>
   (s \<noteq> [] \<and> \<not> legacy_red (toLowerCase (trim s)) \<longrightarrow> sanitizeColor (Some s) = s) \<and>
   sanitizeColor (Some ''#E11D47'') = BRAND_GREEN \<and>
   sanitizeColor (Some ''#e11d47'') = BRAND_GREEN \<and>
   sanitizeColor (Some ''red'') = BRAND_GREEN \<and>
   sanitizeColor (Some ''#123456'') = ''#123456'' \<and>
   BRAND_GREEN = ''#a4e636''"
proof -
  have a: "sanitizeColor None = BRAND_GREEN" "sanitizeColor (Some []) = BRAND_GREEN"
    by (simp_all add: sanitizeColor_def)
  have b: "legacy_red (toLowerCase s) \<longrightarrow> sanitizeColor (Some s) = BRAND_GREEN"
  proof
    assume l: "legacy_red (toLowerCase s)"
    then have "s \<noteq> []" using not_legacy_Nil by (auto simp: toLowerCase_def)
    with legacy_red_lower_normal[OF l] show "sanitizeColor (Some s) = BRAND_GREEN"
      by (simp add: sanitizeColor_Some)
  qed
  have c: "sanitizeColor (Some ''#E11D47'') = BRAND_GREEN"
    "sanitizeColor (Some ''#e11d47'') = BRAND_GREEN"
    "sanitizeColor (Some ''red'') = BRAND_GREEN"
    "sanitizeColor (Some ''#123456'') = ''#123456''"
    by code_simp+
  from a b c show ?thesis by (simp add: sanitizeColor_Some BRAND_GREEN_def)
qed

theorem sanitizeColor_contract_witness:
  "'' Red '' \<noteq> [] \<and> legacy_red (toLowerCase (trim '' Red '')) \<and>
   sanitizeColor (Some '' Red '') = BRAND_GREEN \<and>
   legacy_red (toLowerCase ''RGB(225, 29, 71)'') \<and>
   sanitizeColor (Some ''RGB(225, 29, 71)'') = BRAND_GREEN \<and>
   ''not-a-color'' \<noteq> [] \<and> \<not> legacy_red (toLowerCase (trim ''not-a-color'')) \<and>
   sanitizeColor (Some ''not-a-color'') = ''not-a-color''"
proof -
  have h1: "'' Red '' \<noteq> [] \<and> legacy_red (toLowerCase (trim '' Red ''))"
    by code_simp
  have h2: "legacy_red (toLowerCase ''RGB(225, 29, 71)'')"
    by code_simp
  have h3: "''not-a-color'' \<noteq> [] \<and> \<not> legacy_red (toLowerCase (trim ''not-a-color''))"
    by code_simp
  from h1 sanitizeColor_contract[of "'' Red ''"]
  have r1: "sanitizeColor (Some '' Red '') = BRAND_GREEN" by blast
  from h2 sanitizeColor_contract[of "''RGB(225, 29, 71)''"]
  have r2: "sanitizeColor (Some ''RGB(225, 29, 71)'') = BRAND_GREEN" by blast
  from h3 sanitizeColor_contract[of "''not-a-color''"]
  have r3: "sanitizeColor (Some ''not-a-color'') = ''not-a-color''" by blast
  from h1 h2 h3 r1 r2 r3 show ?thesis by blast
qed

text \<open>
  C7: \<open>sanitizeColor\<close> is idempotent, on every string input and on \<open>undefined\<close>.
\<close>

theorem sanitizeColor_idempotent:
  "sanitizeColor (Some (sanitizeColor x)) = sanitizeColor x"
  by (simp add: sanitizeColor_Some sanitizeColor_nonempty sanitizeColor_normal_clean)

section \<open>Facts about the club settings\<close>

lemma getClubSettings_stored:
  "getClubSettings \<lparr>data = Some d, error = None\<rparr> =
     Inr (d\<lparr>primaryColor := Some (sanitizeColor (primaryColor d)),
            buttonBg := Some (sanitizeColor (buttonBg d)),
            statColor := Some (sanitizeColor (statColor d)),
            dashboardBg := str_or (dashboardBg d) (Some ''#000000''),
            cardBg := str_or (cardBg d) (Some ''#0a0a0a''),
            headerBg := str_or (headerBg d) (Some ''#000000''),
            achievements := arr_or (achievements d) (achievements defaults),
            globalFont := str_or (globalFont d) (globalFont defaults),
            headingFont := str_or (headingFont d) (headingFont defaults),
            navFont := str_or (navFont d) (navFont defaults),
            statFont := str_or (statFont d) (statFont defaults),
            buttonFont := str_or (buttonFont d) (buttonFont defaults),
            inputFont := str_or (inputFont d) (inputFont defaults),
            achievementFont := str_or (achievementFont d) (achievementFont defaults),
            cardHeaderFont := str_or (cardHeaderFont d) (cardHeaderFont defaults),
            sectionHeaderFont := str_or (sectionHeaderFont d) (sectionHeaderFont defaults)\<rparr>)"
  by (simp add: getClubSettings_def)
lemma getClubSettings_defaults:
  "error r \<noteq> None \<or> data r = None \<Longrightarrow> getClubSettings r = Inr defaults"
  by (auto simp: getClubSettings_def)

section \<open>The club settings: claims\<close>

text \<open>
  C1, as stated: every color field of the record that \<open>getClubSettings\<close> returns differs
  from the retired legacy red. A stored record whose header text is \<open>#e11d47\<close> comes back
  with that header text: \<open>headerText\<close> is not among the fields the function sanitizes.
\<close>

theorem getClubSettings_red_header_counterexample:
  "getClubSettings \<lparr>data = Some (defaults\<lparr>headerText := Some ''#e11d47''\<rparr>), error = None\<rparr>
     = Inr (defaults\<lparr>headerText := Some ''#e11d47''\<rparr>) \<and>
   headerText (defaults\<lparr>headerText := Some ''#e11d47''\<rparr>) = Some ''#e11d47'' \<and>
   legacy_red ''#e11d47''"
  by code_simp

text \<open>
  C1, amended: for every stored club-settings record, the primary accent, the button
  background and the statistic color of the record returned by \<open>getClubSettings\<close> are
  present and are not the retired legacy red in any of its recognised textual
  representations, as they stand and after trimming and lower-casing. The other five
  color fields are returned as stored, without sanitization: header text and card border
  unchanged, and the dashboard, header and card backgrounds with their default in place
  of a missing or empty value.
\<close>

theorem getClubSettings_brand_colors_clean:
  "\<exists>s p b t. getClubSettings \<lparr>data = Some d, error = None\<rparr> = Inr s \<and>
      primaryColor s = Some p \<and> buttonBg s = Some b \<and> statColor s = Some t \<and>
      \<not> legacy_red p \<and> \<not> legacy_red b \<and> \<not> legacy_red t \<and>
      \<not> legacy_red (toLowerCase (trim p)) \<and>
      \<not> legacy_red (toLowerCase (trim b)) \<and>
      \<not> legacy_red (toLowerCase (trim t)) \<and>
      headerText s = headerText d \<and> cardBorder s = cardBorder d \<and>
      dashboardBg s = str_or (dashboardBg d) (Some ''#000000'') \<and>
      headerBg s = str_or (headerBg d) (Some ''#000000'') \<and>
      cardBg s = str_or (cardBg d) (Some ''#0a0a0a'')"
  unfolding getClubSettings_stored
  by (simp add: sanitizeColor_clean sanitizeColor_normal_clean)

text \<open>
  C9: when the read of the club settings fails with an error or returns no row,
  \<open>getClubSettings\<close> resolves to the built-in default record (brand name, colors, fonts
  and the catalogue of six achievements) and does not reject.
\<close>

theorem getClubSettings_fallback:
  "error r \<noteq> None \<or> data r = None \<Longrightarrow>
     getClubSettings r = Inr defaults \<and>
     brandName defaults = Some ''BIKERS'' \<and> brandSubName defaults = Some ''CREED'' \<and>
     primaryColor defaults = Some ''#a4e636'' \<and> buttonBg defaults = Some ''#a4e636'' \<and>
     statColor defaults = Some ''#a4e636'' \<and> dashboardBg defaults = Some ''#000000'' \<and>
     globalFont defaults = Some ''Montserrat'' \<and> headingFont defaults = Some ''Bebas Neue'' \<and>
     map_option (map label) (achievements defaults) =
       Some [''Iron Butt'', ''First Lead'', ''Road Master'', ''Guardian'', ''Tactician'', ''Veteran''] \<and>
     map_option length (achievements defaults) = Some 6"
  by (simp add: getClubSettings_defaults) (simp add: defaults_def BRAND_GREEN_def mkAchievement_def)

theorem getClubSettings_fallback_witness:
  "getClubSettings \<lparr>data = None, error = Some (PostgrestError ''fetch failed'')\<rparr> = Inr defaults \<and>
   getClubSettings \<lparr>data = None, error = None\<rparr> = Inr defaults \<and>
   getClubSettings \<lparr>data = Some (defaults\<lparr>brandName := Some ''X''\<rparr>),
                    error = Some (PostgrestError ''fetch failed'')\<rparr> = Inr defaults"
proof -
  have "getClubSettings \<lparr>data = None, error = Some (PostgrestError ''fetch failed'')\<rparr> = Inr defaults"
    using getClubSettings_fallback
      [of "\<lparr>data = None, error = Some (PostgrestError ''fetch failed'')\<rparr>"]
    by simp
  moreover have "getClubSettings \<lparr>data = None, error = None\<rparr> = Inr defaults"
    using getClubSettings_fallback[of "\<lparr>data = None, error = None\<rparr>"] by simp
  moreover have "getClubSettings \<lparr>data = Some (defaults\<lparr>brandName := Some ''X''\<rparr>),
      error = Some (PostgrestError ''fetch failed'')\<rparr> = Inr defaults"
    using getClubSettings_fallback
      [of "\<lparr>data = Some (defaults\<lparr>brandName := Some ''X''\<rparr>),
            error = Some (PostgrestError ''fetch failed'')\<rparr>"]
    by simp
  ultimately show ?thesis by blast
qed


section \<open>Facts about the achievement progress view\<close>

lemma set_catAchievements: "set (catAchievements as c) = {a \<in> set as. category a = c}"
  by (auto simp: catAchievements_def)

lemma sorted_catAchievements: "sorted (map threshold (catAchievements as c))"
  by (simp add: catAchievements_def)

lemma catAchievements_Nil: "catAchievements as c = [] \<longleftrightarrow> (\<forall>a\<in>set as. category a \<noteq> c)"
proof -
  have "catAchievements as c = [] \<longleftrightarrow> set (catAchievements as c) = {}" by simp
  then show ?thesis unfolding set_catAchievements by auto
qed

lemma renderCategory_None: "renderCategory user as c = None \<longleftrightarrow> (\<forall>a\<in>set as. category a \<noteq> c)"
  by (simp add: renderCategory_def Let_def catAchievements_Nil)

lemma set_categories: "set categories = UNIV"
proof -
  have "c \<in> set categories" for c by (cases c) (simp_all add: categories_def)
  then show ?thesis by auto
qed

lemma set_map_filter_id: "set (List.map_filter (\<lambda>x. x) xs) = {k. Some k \<in> set xs}"
  by (induction xs) (auto simp: map_filter_simps split: option.splits)

lemma set_emitted:
  "achievements s = Some as \<Longrightarrow>
     set (emitted user (Some s)) = {k. \<exists>c. renderCategory user as c = Some k}"
proof -
  assume as: "achievements s = Some as"
  have "Some k \<in> range (renderCategory user as) \<longleftrightarrow> (\<exists>c. renderCategory user as c = Some k)" for k
    by (metis rangeE rangeI)
  then show ?thesis
    by (simp add: emitted_def AchievementProgress_def as set_map_filter_id set_categories)
qed

lemma renderCategory_category: "renderCategory user as c = Some k \<Longrightarrow> cardCategory k = c"
  by (auto simp: renderCategory_def Let_def split: if_splits)

lemma clamp_in_range: "x \<noteq> NaN \<Longrightarrow> in_range (Math_min (Fin 100) (Math_max (Fin 0) x))"
  by (cases x) auto

lemma js_times_NaN: "js_times x k = NaN \<longleftrightarrow> x = NaN"
  by (cases x) auto

lemma js_div_NaN: "js_div a b = NaN \<longleftrightarrow> a = 0 \<and> b = 0"
  by (auto simp: js_div_def)

lemma last_index: "xs \<noteq> [] \<Longrightarrow> xs ! (length xs - 1) = last xs"
  by (simp add: last_conv_nth)

lemma last_index_Suc: "xs \<noteq> [] \<Longrightarrow> xs ! (length xs - Suc 0) = last xs"
  by (simp add: last_conv_nth)


lemma renderCategory_Some:
  assumes "catAchievements as c \<noteq> []"
  shows "renderCategory user as c =
     (let v = getStatValue user c;
          cat = catAchievements as c;
          nxt = (case find (\<lambda>a. threshold a > v) cat of Some a \<Rightarrow> a | None \<Rightarrow> last cat);
          prev = num_or (map_option threshold (last_opt (filter (\<lambda>a. threshold a \<le> v) cat))) 0;
          prog = Math_min (Fin 100)
                   (Math_max (Fin 0) (js_times (js_div (v - prev) (threshold nxt - prev)) 100));
          maxed = (v \<ge> threshold (last cat))
      in Some \<lparr>cardCategory = c, catValue = v, nextAchievement = nxt, prevThreshold = prev,
               progress = prog, isMaxed = maxed,
               heading = (if maxed then ''MAXED OUT'' else label nxt),
               barWidth = (if maxed then Fin 100 else prog)\<rparr>)"
  using assms by (simp add: renderCategory_def Let_def last_index last_index_Suc cong: option.case_cong)

lemma not_maxed_next:
  assumes "cat \<noteq> []" "\<not> v \<ge> threshold (last cat)"
  shows "threshold (case find (\<lambda>a. threshold a > v) cat of Some a \<Rightarrow> a | None \<Rightarrow> last cat) > v"
  using assms by (auto split: option.splits simp: find_Some_iff)

lemma renderCategory_in_range:
  assumes "renderCategory user as c = Some k"
  shows "in_range (barWidth k)"
proof -
  from assms have ne: "catAchievements as c \<noteq> []"
    by (auto simp: renderCategory_def Let_def split: if_splits)
  show ?thesis
  proof (cases "getStatValue user c \<ge> threshold (last (catAchievements as c))")
    case True
    with assms ne show ?thesis by (auto simp: renderCategory_Some Let_def)
  next
    case False
    define n where "n = (case find (\<lambda>a. threshold a > getStatValue user c) (catAchievements as c)
               of Some a \<Rightarrow> a | None \<Rightarrow> last (catAchievements as c))"
    have "getStatValue user c < threshold n"
      unfolding n_def by (rule not_maxed_next[OF ne False])
    then have "\<not> (getStatValue user c - p = 0 \<and> threshold n - p = 0)" for p
      by arith
    then have "js_times (js_div (getStatValue user c - p) (threshold n - p)) 100 \<noteq> NaN" for p
      by (simp only: js_times_NaN js_div_NaN not_False_eq_True)
    from clamp_in_range[OF this] assms ne False show ?thesis
      by (auto simp: renderCategory_Some Let_def n_def)
  qed
qed


lemma mset_catAchievements:
  "mset (catAchievements as c) = mset (filter (\<lambda>a. category a = c) as)"
  by (simp add: catAchievements_def)

lemma find_Some_split:
  "find P xs = Some x \<Longrightarrow> \<exists>pre post. xs = pre @ x # post \<and> P x \<and> (\<forall>a\<in>set pre. \<not> P a)"
proof (induction xs)
  case Nil
  then show ?case by simp
next
  case (Cons a xs)
  show ?case
  proof (cases "P a")
    case True
    with Cons.prems have "a = x" by simp
    with True have "a # xs = [] @ x # xs \<and> P x \<and> (\<forall>a\<in>set []. \<not> P a)" by simp
    then show ?thesis by blast
  next
    case False
    with Cons.prems have "find P xs = Some x" by simp
    from Cons.IH[OF this] obtain pre post
      where "xs = pre @ x # post" "P x" "\<forall>a\<in>set pre. \<not> P a" by blast
    with False have "a # xs = (a # pre) @ x # post \<and> P x \<and> (\<forall>b\<in>set (a # pre). \<not> P b)"
      by simp
    then show ?thesis by blast
  qed
qed

lemma last_filter_split:
  "filter Q xs \<noteq> [] \<Longrightarrow>
     \<exists>pre post. xs = pre @ last (filter Q xs) # post \<and> Q (last (filter Q xs)) \<and>
       (\<forall>a\<in>set post. \<not> Q a)"
proof (induction xs rule: rev_induct)
  case Nil
  then show ?case by simp
next
  case (snoc a xs)
  show ?case
  proof (cases "Q a")
    case True
    then have "xs @ [a] = xs @ last (filter Q (xs @ [a])) # [] \<and> Q (last (filter Q (xs @ [a])))
        \<and> (\<forall>b\<in>set []. \<not> Q b)"
      by simp
    then show ?thesis by blast
  next
    case False
    then have f: "filter Q (xs @ [a]) = filter Q xs" by simp
    with snoc.prems have "filter Q xs \<noteq> []" by simp
    from snoc.IH[OF this] obtain pre post
      where "xs = pre @ last (filter Q xs) # post" "Q (last (filter Q xs))" "\<forall>b\<in>set post. \<not> Q b"
      by blast
    with False f have "xs @ [a] = pre @ last (filter Q (xs @ [a])) # (post @ [a]) \<and>
        Q (last (filter Q (xs @ [a]))) \<and> (\<forall>b\<in>set (post @ [a]). \<not> Q b)"
      by simp
    then show ?thesis by blast
  qed
qed

lemma num_or_zero: "num_or (Some t) 0 = t"
  by (simp add: num_or_def)

lemma num_or_None: "num_or None 0 = 0"
  by (simp add: num_or_def)

text \<open>The fields of a rendered card\<close>

lemma renderCategory_card:
  assumes "\<exists>a\<in>set as. category a = c"
  obtains k where "renderCategory user as c = Some k"
    and "cardCategory k = c"
    and "catValue k = getStatValue user c"
    and "nextAchievement k =
           (case find (\<lambda>a. threshold a > getStatValue user c) (catAchievements as c) of
              Some a \<Rightarrow> a | None \<Rightarrow> last (catAchievements as c))"
    and "prevThreshold k =
           num_or (map_option threshold
             (last_opt (filter (\<lambda>a. threshold a \<le> getStatValue user c) (catAchievements as c)))) 0"
    and "progress k = Math_min (Fin 100) (Math_max (Fin 0)
           (js_times (js_div (catValue k - prevThreshold k)
              (threshold (nextAchievement k) - prevThreshold k)) 100))"
    and "isMaxed k = (getStatValue user c \<ge> threshold (last (catAchievements as c)))"
    and "barWidth k = (if isMaxed k then Fin 100 else progress k)"
proof -
  from assms have ne: "catAchievements as c \<noteq> []" by (simp add: catAchievements_Nil)
  show ?thesis
    by (rule that[of "the (renderCategory user as c)"])
       (simp_all add: renderCategory_Some[OF ne] Let_def)
qed


section \<open>The achievement progress view: claims\<close>

text \<open>
  C2: for every catalogue and every assignment of stat values, each card the view emits
  shows a fraction (the width of its bar) that is a finite number in the interval from 0
  to 100. The override for a maxed category matters: the raw \<open>progress\<close> of a card can be
  \<open>NaN\<close>, the width it shows cannot.
\<close>

theorem progress_in_range: "\<forall>k\<in>set (emitted user settings). in_range (barWidth k)"
proof (cases settings)
  case None
  then show ?thesis by (simp add: emitted_def AchievementProgress_def)
next
  case (Some s)
  show ?thesis
  proof (cases "achievements s")
    case None
    with Some show ?thesis by (simp add: emitted_def AchievementProgress_def)
  next
    case (Some as)
    with \<open>settings = Some s\<close> show ?thesis
      by (auto simp: set_emitted dest: renderCategory_in_range)
  qed
qed
theorem progress_in_range_witness:
  "kms_card \<in> set (emitted rider (Some defaults)) \<and> in_range (barWidth kms_card)"
proof -
  have m: "kms_card \<in> set (emitted rider (Some defaults))" by code_simp
  with progress_in_range[of rider "Some defaults"] show ?thesis by blast
qed
text \<open>
  C3: for a category with at least one achievement, when the stat value is at least
  every threshold of the category, the card is maxed, its bar is exactly 100 wide, and
  its next achievement is the last one of the ascending order, which has the highest
  threshold of the category. The catalogue \<open>First Lead\<close> 5, \<open>Road Master\<close> 10 with ten
  leads gives \<open>Road Master\<close>.
\<close>

theorem maxed_category:
  assumes cat: "\<exists>a\<in>set as. category a = c"
    and top: "\<forall>a\<in>set as. category a = c \<longrightarrow> threshold a \<le> getStatValue user c"
  shows "\<exists>k. renderCategory user as c = Some k \<and> isMaxed k \<and> barWidth k = Fin 100 \<and>
           nextAchievement k = last (catAchievements as c) \<and>
           nextAchievement k \<in> set as \<and> category (nextAchievement k) = c \<and>
           (\<forall>a\<in>set as. category a = c \<longrightarrow> threshold a \<le> threshold (nextAchievement k))"
proof -
  let ?cat = "catAchievements as c" and ?v = "getStatValue user c"
  from cat have ne: "?cat \<noteq> []" by (simp add: catAchievements_Nil)
  then have lst: "last ?cat \<in> set ?cat" by simp
  from top have all: "\<forall>a\<in>set ?cat. threshold a \<le> ?v" by (simp add: set_catAchievements)
  then have nofind: "find (\<lambda>a. threshold a > ?v) ?cat = None"
    by (auto simp: find_None_iff)
  from sorted_catAchievements[of as c] have "sorted (map threshold ?cat)" .
  have hi: "threshold a \<le> threshold (last ?cat)" if "a \<in> set ?cat" for a
  proof -
    from that obtain i where i: "i < length ?cat" "a = ?cat ! i" by (auto simp: in_set_conv_nth)
    have "map threshold ?cat ! i \<le> map threshold ?cat ! (length ?cat - 1)"
      using i ne by (intro sorted_nth_mono[OF sorted_catAchievements]) auto
    with i ne show ?thesis by (simp add: last_conv_nth)
  qed
  from cat obtain k where k: "renderCategory user as c = Some k"
    "nextAchievement k =
           (case find (\<lambda>a. threshold a > ?v) ?cat of Some a \<Rightarrow> a | None \<Rightarrow> last ?cat)"
    "isMaxed k = (?v \<ge> threshold (last ?cat))"
    "barWidth k = (if isMaxed k then Fin 100 else progress k)"
    by (rule renderCategory_card[where user = user])
  from k nofind have nx: "nextAchievement k = last ?cat" by simp
  from all lst k have mx: "isMaxed k" by simp
  from lst have "last ?cat \<in> set as" "category (last ?cat) = c"
    by (simp_all add: set_catAchievements)
  moreover have "\<forall>a\<in>set as. category a = c \<longrightarrow> threshold a \<le> threshold (last ?cat)"
    using hi by (simp add: set_catAchievements)
  ultimately show ?thesis using k(1,4) nx mx by auto
qed
theorem maxed_category_witness:
  "\<exists>k. renderCategory rider lead_honors Leads = Some k \<and> isMaxed k \<and> barWidth k = Fin 100 \<and>
      nextAchievement k = mkAchievement 10 ''Road Master'' Leads"
proof -
  have h1: "\<exists>a\<in>set lead_honors. category a = Leads"
    by (simp add: lead_honors_def mkAchievement_def)
  have h2: "\<forall>a\<in>set lead_honors. category a = Leads \<longrightarrow> threshold a \<le> getStatValue rider Leads"
    by (simp add: lead_honors_def mkAchievement_def rider_def)
  have l: "last (catAchievements lead_honors Leads) = mkAchievement 10 ''Road Master'' Leads"
    by code_simp
  from maxed_category[OF h1 h2] l show ?thesis by auto
qed
text \<open>
  C4: for a category with at least one achievement, the achievements of the category are
  put in ascending order of threshold; the next achievement is the first one of that
  order whose threshold exceeds the stat value, or the last one of the order when none
  does; the previous threshold is that of the last one of the order whose threshold is at
  most the stat value, or 0 when there is none. With \<open>Iron Butt\<close> at 1000 and 400
  kilometres the card has previous threshold 0, next threshold 1000, progress 40, and is
  not maxed.
\<close>

theorem next_and_previous:
  "((\<exists>a\<in>set as. category a = c) \<longrightarrow>
     (\<exists>k. renderCategory user as c = Some k \<and> catValue k = getStatValue user c \<and>
        sorted (map threshold (catAchievements as c)) \<and>
        mset (catAchievements as c) = mset (filter (\<lambda>a. category a = c) as) \<and>
        ((\<exists>a\<in>set (catAchievements as c). threshold a > catValue k) \<longrightarrow>
           (\<exists>pre post. catAchievements as c = pre @ nextAchievement k # post \<and>
              threshold (nextAchievement k) > catValue k \<and>
              (\<forall>a\<in>set pre. threshold a \<le> catValue k))) \<and>
        ((\<forall>a\<in>set (catAchievements as c). threshold a \<le> catValue k) \<longrightarrow>
           nextAchievement k = last (catAchievements as c)) \<and>
        ((\<exists>a\<in>set (catAchievements as c). threshold a \<le> catValue k) \<longrightarrow>
           (\<exists>pre x post. catAchievements as c = pre @ x # post \<and>
              threshold x \<le> catValue k \<and>
              (\<forall>a\<in>set post. threshold a > catValue k) \<and>
              prevThreshold k = threshold x)) \<and>
        ((\<forall>a\<in>set (catAchievements as c). threshold a > catValue k) \<longrightarrow>
           prevThreshold k = 0))) \<and>
   renderCategory (user\<lparr>totalKms := 400\<rparr>) [mkAchievement 1000 ''Iron Butt'' Kms] Kms =
     Some \<lparr>cardCategory = Kms, catValue = 400,
           nextAchievement = mkAchievement 1000 ''Iron Butt'' Kms,
           prevThreshold = 0, progress = Fin 40, isMaxed = False,
           heading = ''Iron Butt'', barWidth = Fin 40\<rparr>"
proof (intro conjI impI)
  assume cat: "\<exists>a\<in>set as. category a = c"
  let ?cat = "catAchievements as c" and ?v = "getStatValue user c"
  from cat obtain k where k: "renderCategory user as c = Some k"
    "catValue k = ?v"
    "nextAchievement k =
           (case find (\<lambda>a. threshold a > ?v) ?cat of Some a \<Rightarrow> a | None \<Rightarrow> last ?cat)"
    "prevThreshold k =
           num_or (map_option threshold (last_opt (filter (\<lambda>a. threshold a \<le> ?v) ?cat))) 0"
    by (rule renderCategory_card[where user = user])
  have n1: "\<exists>pre post. ?cat = pre @ nextAchievement k # post \<and>
              threshold (nextAchievement k) > ?v \<and> (\<forall>a\<in>set pre. threshold a \<le> ?v)"
    if "\<exists>a\<in>set ?cat. threshold a > ?v"
  proof -
    from that have "find (\<lambda>a. threshold a > ?v) ?cat \<noteq> None" by (auto simp: find_None_iff)
    then obtain x where x: "find (\<lambda>a. threshold a > ?v) ?cat = Some x" by auto
    from find_Some_split[OF x] obtain pre post
      where "?cat = pre @ x # post" "threshold x > ?v" "\<forall>a\<in>set pre. \<not> threshold a > ?v"
      by blast
    moreover from k(3) x have "nextAchievement k = x" by simp
    ultimately show ?thesis by (metis not_less)
  qed
  have n2: "nextAchievement k = last ?cat" if "\<forall>a\<in>set ?cat. threshold a \<le> ?v"
  proof -
    from that have "find (\<lambda>a. threshold a > ?v) ?cat = None" by (auto simp: find_None_iff)
    with k(3) show ?thesis by simp
  qed
  have p1: "\<exists>pre x post. ?cat = pre @ x # post \<and> threshold x \<le> ?v \<and>
      (\<forall>a\<in>set post. threshold a > ?v) \<and> prevThreshold k = threshold x"
    if "\<exists>a\<in>set ?cat. threshold a \<le> ?v"
  proof -
    let ?q = "filter (\<lambda>a. threshold a \<le> ?v) ?cat"
    from that have ne: "?q \<noteq> []" by (simp add: filter_empty_conv)
    from last_filter_split[OF ne] obtain pre post
      where s: "?cat = pre @ last ?q # post" "threshold (last ?q) \<le> ?v"
        "\<forall>a\<in>set post. \<not> threshold a \<le> ?v"
      by blast
    from k(4) ne have "prevThreshold k = threshold (last ?q)"
      by (simp add: last_opt_def num_or_zero)
    with s show ?thesis by (metis not_le)
  qed
  have p2: "prevThreshold k = 0" if "\<forall>a\<in>set ?cat. threshold a > ?v"
  proof -
    from that have "filter (\<lambda>a. threshold a \<le> ?v) ?cat = []"
      by (auto simp: filter_empty_conv)
    with k(4) show ?thesis by (simp add: last_opt_def num_or_None)
  qed
  from k(1,2) n1 n2 p1 p2 sorted_catAchievements[of as c] mset_catAchievements[of as c]
  show "\<exists>k. renderCategory user as c = Some k \<and> catValue k = getStatValue user c \<and>
        sorted (map threshold (catAchievements as c)) \<and>
        mset (catAchievements as c) = mset (filter (\<lambda>a. category a = c) as) \<and>
        ((\<exists>a\<in>set (catAchievements as c). threshold a > catValue k) \<longrightarrow>
           (\<exists>pre post. catAchievements as c = pre @ nextAchievement k # post \<and>
              threshold (nextAchievement k) > catValue k \<and>
              (\<forall>a\<in>set pre. threshold a \<le> catValue k))) \<and>
        ((\<forall>a\<in>set (catAchievements as c). threshold a \<le> catValue k) \<longrightarrow>
           nextAchievement k = last (catAchievements as c)) \<and>
        ((\<exists>a\<in>set (catAchievements as c). threshold a \<le> catValue k) \<longrightarrow>
           (\<exists>pre x post. catAchievements as c = pre @ x # post \<and>
              threshold x \<le> catValue k \<and>
              (\<forall>a\<in>set post. threshold a > catValue k) \<and>
              prevThreshold k = threshold x)) \<and>
        ((\<forall>a\<in>set (catAchievements as c). threshold a > catValue k) \<longrightarrow>
           prevThreshold k = 0)"
    by (intro exI[of _ k]) simp
next
  show "renderCategory (user\<lparr>totalKms := 400\<rparr>) [mkAchievement 1000 ''Iron Butt'' Kms] Kms =
     Some \<lparr>cardCategory = Kms, catValue = 400,
           nextAchievement = mkAchievement 1000 ''Iron Butt'' Kms,
           prevThreshold = 0, progress = Fin 40, isMaxed = False,
           heading = ''Iron Butt'', barWidth = Fin 40\<rparr>"
    by (simp add: renderCategory_def catAchievements_def mkAchievement_def Let_def
        last_opt_def num_or_def js_div_def)
qed
theorem next_and_previous_witness:
  "(\<exists>k. renderCategory rider lead_honors Leads = Some k \<and> catValue k = 10 \<and>
      nextAchievement k = last (catAchievements lead_honors Leads) \<and>
      (\<exists>pre x post. catAchievements lead_honors Leads = pre @ x # post \<and> threshold x \<le> 10 \<and>
          prevThreshold k = threshold x)) \<and>
   (\<exists>k. renderCategory rider iron_butt Kms = Some k \<and> catValue k = 400 \<and>
      (\<exists>pre post. catAchievements iron_butt Kms = pre @ nextAchievement k # post \<and>
          threshold (nextAchievement k) > 400) \<and>
      prevThreshold k = 0)"
proof -
  have h1: "\<exists>a\<in>set lead_honors. category a = Leads"
    by (simp add: lead_honors_def mkAchievement_def)
  have v: "getStatValue rider Leads = 10" by (simp add: rider_def)
  have c: "catAchievements lead_honors Leads = lead_honors" by code_simp
  have h2: "\<forall>a\<in>set (catAchievements lead_honors Leads). threshold a \<le> 10"
    by (simp add: c) (simp add: lead_honors_def mkAchievement_def)
  have h3: "\<exists>a\<in>set (catAchievements lead_honors Leads). threshold a \<le> 10"
    by (simp add: c) (simp add: lead_honors_def mkAchievement_def)
  from next_and_previous[of lead_honors Leads rider] h1 v h2 h3
  have a: "\<exists>k. renderCategory rider lead_honors Leads = Some k \<and> catValue k = 10 \<and>
      nextAchievement k = last (catAchievements lead_honors Leads) \<and>
      (\<exists>pre x post. catAchievements lead_honors Leads = pre @ x # post \<and> threshold x \<le> 10 \<and>
          prevThreshold k = threshold x)"
    by (metis (no_types, lifting))
  have g1: "\<exists>a\<in>set iron_butt. category a = Kms"
    by (simp add: iron_butt_def mkAchievement_def)
  have w: "getStatValue rider Kms = 400" by (simp add: rider_def)
  have d: "catAchievements iron_butt Kms = iron_butt" by code_simp
  have g2: "\<exists>a\<in>set (catAchievements iron_butt Kms). threshold a > 400"
    by (simp add: d) (simp add: iron_butt_def mkAchievement_def)
  have g3: "\<forall>a\<in>set (catAchievements iron_butt Kms). threshold a > 400"
    by (simp add: d) (simp add: iron_butt_def mkAchievement_def)
  from next_and_previous[of iron_butt Kms rider] g1 w g2 g3
  have b: "\<exists>k. renderCategory rider iron_butt Kms = Some k \<and> catValue k = 400 \<and>
      (\<exists>pre post. catAchievements iron_butt Kms = pre @ nextAchievement k # post \<and>
          threshold (nextAchievement k) > 400) \<and>
      prevThreshold k = 0"
    by (metis (no_types, lifting))
  from a b show ?thesis by blast
qed

text \<open>
  C6: when every achievement of a category has the same threshold and the stat value
  equals it, the previous threshold equals the next threshold, the quotient of the raw
  formula is \<open>0 / 0\<close> and the raw progress is \<open>NaN\<close>; the card is maxed all the same and
  the bar it shows is exactly 100 wide, since the width is taken from \<open>isMaxed\<close> before
  the raw progress is looked at. The catalogue \<open>A\<close> 5, \<open>B\<close> 5 with a stat of 5 is such a case.
\<close>

theorem equal_thresholds_guarded:
  assumes cat: "\<exists>a\<in>set as. category a = c"
    and same: "\<forall>a\<in>set as. category a = c \<longrightarrow> threshold a = getStatValue user c"
  shows "\<exists>k. renderCategory user as c = Some k \<and>
           prevThreshold k = threshold (nextAchievement k) \<and>
           catValue k = prevThreshold k \<and>
           js_div (catValue k - prevThreshold k) (threshold (nextAchievement k) - prevThreshold k) = NaN \<and>
           progress k = NaN \<and> isMaxed k \<and> barWidth k = Fin 100"
proof -
  let ?cat = "catAchievements as c" and ?v = "getStatValue user c"
  from cat have ne: "?cat \<noteq> []" by (simp add: catAchievements_Nil)
  then have lst: "last ?cat \<in> set ?cat" by simp
  from same have all: "\<forall>a\<in>set ?cat. threshold a = ?v" by (simp add: set_catAchievements)
  then have nofind: "find (\<lambda>a. threshold a > ?v) ?cat = None"
    by (auto simp: find_None_iff)
  from all have "filter (\<lambda>a. threshold a \<le> ?v) ?cat = ?cat" by (simp add: filter_id_conv)
  with ne have lo: "last_opt (filter (\<lambda>a. threshold a \<le> ?v) ?cat) = Some (last ?cat)"
    by (simp add: last_opt_def)
  from all lst have tl: "threshold (last ?cat) = ?v" by simp
  from cat obtain k where k: "renderCategory user as c = Some k"
    "catValue k = ?v"
    "nextAchievement k =
           (case find (\<lambda>a. threshold a > ?v) ?cat of Some a \<Rightarrow> a | None \<Rightarrow> last ?cat)"
    "prevThreshold k =
           num_or (map_option threshold (last_opt (filter (\<lambda>a. threshold a \<le> ?v) ?cat))) 0"
    "progress k = Math_min (Fin 100) (Math_max (Fin 0)
           (js_times (js_div (catValue k - prevThreshold k)
              (threshold (nextAchievement k) - prevThreshold k)) 100))"
    "isMaxed k = (?v \<ge> threshold (last ?cat))"
    "barWidth k = (if isMaxed k then Fin 100 else progress k)"
    by (rule renderCategory_card[where user = user])
  from k(3) nofind have nx: "nextAchievement k = last ?cat" by simp
  from k(4) lo tl have pv: "prevThreshold k = ?v" by (simp add: num_or_zero)
  from nx tl pv k(2) have d: "js_div (catValue k - prevThreshold k)
      (threshold (nextAchievement k) - prevThreshold k) = NaN"
    by (simp add: js_div_def)
  with k(5) have pr: "progress k = NaN" by simp
  from k(6) tl have mx: "isMaxed k" by simp
  with k(7) have "barWidth k = Fin 100" by simp
  with k(1,2) nx tl pv d pr mx show ?thesis by simp
qed
theorem equal_thresholds_guarded_witness:
  "\<exists>k. renderCategory rider twin_honors RPs = Some k \<and> catValue k = 5 \<and>
      prevThreshold k = 5 \<and> threshold (nextAchievement k) = 5 \<and>
      progress k = NaN \<and> isMaxed k \<and> barWidth k = Fin 100"
proof -
  have h1: "\<exists>a\<in>set twin_honors. category a = RPs"
    by (simp add: twin_honors_def mkAchievement_def)
  have h2: "\<forall>a\<in>set twin_honors. category a = RPs \<longrightarrow> threshold a = getStatValue rider RPs"
    by (simp add: twin_honors_def mkAchievement_def rider_def)
  have v: "getStatValue rider RPs = 5" by (simp add: rider_def)
  from equal_thresholds_guarded[OF h1 h2] obtain k where
    k: "renderCategory rider twin_honors RPs = Some k"
      "prevThreshold k = threshold (nextAchievement k)" "catValue k = prevThreshold k"
      "progress k = NaN" "isMaxed k" "barWidth k = Fin 100"
    by blast
  from k(1) have "catValue k = getStatValue rider RPs"
    by (auto simp: renderCategory_def Let_def split: if_splits)
  with v k show ?thesis by auto
qed
text \<open>
  C8: a category with no achievement in the catalogue produces no card: its slot of the
  grid is empty, and no emitted card carries the category.
\<close>

theorem absent_category_skipped:
  assumes "achievements s = Some as" and "\<forall>a\<in>set as. category a \<noteq> c"
  shows "renderCategory user as c = None \<and> (\<forall>k\<in>set (emitted user (Some s)). cardCategory k \<noteq> c)"
proof -
  from assms(2) have n: "renderCategory user as c = None" by (simp add: renderCategory_None)
  have "cardCategory k \<noteq> c" if "k \<in> set (emitted user (Some s))" for k
  proof
    assume e: "cardCategory k = c"
    from that assms(1) obtain c' where c': "renderCategory user as c' = Some k"
      by (auto simp: set_emitted)
    from renderCategory_category[OF c'] e have "c' = c" by simp
    with c' n show False by simp
  qed
  with n show ?thesis by blast
qed
theorem absent_category_skipped_witness:
  "renderCategory rider iron_butt Leads = None \<and>
   \<not> (\<exists>k\<in>set (emitted rider (Some (defaults\<lparr>achievements := Some iron_butt\<rparr>))). cardCategory k = Leads) \<and>
   emitted rider (Some (defaults\<lparr>achievements := Some iron_butt\<rparr>)) = [kms_card]"
proof -
  have h1: "achievements (defaults\<lparr>achievements := Some iron_butt\<rparr>) = Some iron_butt" by simp
  have h2: "\<forall>a\<in>set iron_butt. category a \<noteq> Leads"
    by (simp add: iron_butt_def mkAchievement_def)
  have e: "emitted rider (Some (defaults\<lparr>achievements := Some iron_butt\<rparr>)) = [kms_card]"
    by code_simp
  from absent_category_skipped[OF h1 h2, of rider] e show ?thesis by blast
qed

section \<open>Facts about ride records\<close>

lemma payload_status: "status (RideData.extend rideData (RideInsert.fields st)) = st"
  by (simp add: RideData.extend_def RideInsert.fields_def RideData.defs RideInsert.defs)
lemma payload_truncate: "RideData.truncate (RideData.extend rideData (RideInsert.fields st)) = rideData"
  by (simp add: RideData.extend_def RideInsert.fields_def RideData.defs RideInsert.defs RideData.truncate_def)
lemma stored_status: "status (RideInsert.extend row (Ride.fields i)) = status row"
  by (simp add: RideInsert.extend_def Ride.fields_def RideInsert.defs Ride.defs)
lemma stored_id: "ride_id (RideInsert.extend row (Ride.fields i)) = i"
  by (simp add: RideInsert.extend_def Ride.fields_def RideInsert.defs Ride.defs)
lemma stored_base: "RideData.truncate (RideInsert.extend row (Ride.fields i)) = RideData.truncate row"
  by (simp add: RideInsert.extend_def Ride.fields_def RideInsert.defs Ride.defs RideData.truncate_def)

section \<open>Creating a ride: claims\<close>

text \<open>
  C10: a ride created by \<open>createRide\<close> is stored with status \<open>upcoming\<close>: the caller's
  draft has neither id nor status, the payload sets the status, the stored row carries
  the draft's fields, and the row is in the list of upcoming rides. When the store
  reports an error, the error is thrown and the table is as before.
\<close>

theorem createRide_upcoming:
  "(failure = None \<longrightarrow>
      (\<exists>r. createRide failure new_id rideData tbl = (Inr (Some r), tbl @ [r]) \<and>
           status r = upcoming \<and> ride_id r = new_id \<and>
           RideData.truncate r = rideData \<and>
           r \<in> set (upcomingRides (tbl @ [r])))) \<and>
   (\<forall>e. failure = Some e \<longrightarrow> createRide failure new_id rideData tbl = (Inl e, tbl))"
  by (auto simp: createRide_def insert_rides_def Let_def upcomingRides_def
      payload_status payload_truncate stored_status stored_id stored_base)
theorem createRide_upcoming_witness:
  "(\<exists>r. createRide None ''r-17'' dawn_ride [] = (Inr (Some r), [r]) \<and> status r = upcoming \<and>
       title r = ''Dawn Patrol'' \<and> upcomingRides [r] = [r]) \<and>
   createRide (Some (PostgrestError ''denied'')) ''r-17'' dawn_ride [] =
     (Inl (PostgrestError ''denied''), [])"
proof -
  from createRide_upcoming[of None "''r-17''" dawn_ride "[]"]
  obtain r where r: "createRide None ''r-17'' dawn_ride [] = (Inr (Some r), [r])"
    "status r = upcoming" "RideData.truncate r = dawn_ride"
    by auto
  from r(3) have "title (RideData.truncate r) = ''Dawn Patrol''"
    by (simp add: dawn_ride_def)
  then have "title r = ''Dawn Patrol''"
    by (simp add: RideData.truncate_def)
  with r have a: "\<exists>r. createRide None ''r-17'' dawn_ride [] = (Inr (Some r), [r]) \<and>
      status r = upcoming \<and> title r = ''Dawn Patrol'' \<and> upcomingRides [r] = [r]"
    by (auto simp: upcomingRides_def)
  have b: "createRide (Some (PostgrestError ''denied'')) ''r-17'' dawn_ride [] =
     (Inl (PostgrestError ''denied''), [])"
    using createRide_upcoming[of "Some (PostgrestError ''denied'')" "''r-17''" dawn_ride "[]"]
    by simp
  from a b show ?thesis by blast
qed

end
